theory Spec2Isabelle
  imports Complex_Main
begin

section \<open>Holidays-API: the click, geocode, holiday-fetch script of \<open>app.py\<close>\<close>

text \<open>
  \<open>app.py\<close> is a Streamlit script: the framework runs it from top to bottom once per
  pass, and the only data that survives a pass is \<open>st.session_state\<close>. One pass is
  modelled as the function \<open>run\<close>: it takes what the pass reads from outside (the
  secrets, the value the map widget returns, the answers of the two HTTP services, the
  clock) and the session state, and returns the new session state, the effects of the
  pass in the order the script issues them, and how the pass ended.

  The messages of the script are Korean texts; each is a constructor of \<open>message\<close>
  named by what it says.
\<close>

subsection \<open>Python values\<close>

text \<open>
  What \<open>response.json()\<close> returns: \<open>None\<close>, a bool, a number, a str, a list or a dict.
  Numbers are only copied and tested for zero, so a real stands for them. Strings are
  ASCII text. A dict is an association list read with \<open>map_of\<close>.
\<close>

datatype json =
    JNull
  | JBool bool
  | JNum real
  | JStr string
  | JArr "json list"
  | JObj "(string \<times> json) list"

text \<open>
  The exceptions of the script. \<open>RequestException\<close> stands for every exception of
  \<open>requests.exceptions\<close> raised by the library with its text, \<open>HTTPError\<close> for the one
  \<open>raise_for_status\<close> raises; \<open>OtherException\<close> is any other exception of a library.
\<close>

datatype exn =
    RequestException string
  | HTTPError nat
  | KeyError
  | FileNotFoundError
  | TypeError
  | AttributeError
  | NameError
  | OtherException string

fun is_request_exception :: "exn \<Rightarrow> bool" where
  "is_request_exception (RequestException m) = True"
| "is_request_exception (HTTPError n) = True"
| "is_request_exception ex = False"

text \<open>Sequencing of steps that may raise: the first exception ends the \<open>try\<close> body.\<close>

definition and_then :: "exn + 'a \<Rightarrow> ('a \<Rightarrow> exn + 'b) \<Rightarrow> exn + 'b" where
  "and_then m f = (case m of Inl ex \<Rightarrow> Inl ex | Inr x \<Rightarrow> f x)"

text \<open>Truth value of a Python object, as \<open>if x:\<close> tests it.\<close>

fun truthy :: "json \<Rightarrow> bool" where
  "truthy JNull = False"
| "truthy (JBool b) = b"
| "truthy (JNum n) = (n \<noteq> 0)"
| "truthy (JStr s) = (s \<noteq> [])"
| "truthy (JArr xs) = (xs \<noteq> [])"
| "truthy (JObj kvs) = (kvs \<noteq> [])"

fun is_substring :: "string \<Rightarrow> string \<Rightarrow> bool" where
  "is_substring k [] = (k = [])"
| "is_substring k (c # s) = (take (length k) (c # s) = k \<or> is_substring k s)"

text \<open>
  \<open>k in x\<close> for a str \<open>k\<close>: a key of a dict, an element of a list, a substring of a
  str; \<open>TypeError\<close> on a number, a bool or \<open>None\<close>.
\<close>

fun py_contains :: "string \<Rightarrow> json \<Rightarrow> exn + bool" where
  "py_contains k (JObj kvs) = Inr (map_of kvs k \<noteq> None)"
| "py_contains k (JArr xs) = Inr (JStr k \<in> set xs)"
| "py_contains k (JStr s) = Inr (is_substring k s)"
| "py_contains k x = Inl TypeError"

text \<open>\<open>x[k]\<close> for a str \<open>k\<close>: the value of a dict, \<open>KeyError\<close> when the key is missing,
  \<open>TypeError\<close> on everything that is not a dict.\<close>

fun py_getitem :: "json \<Rightarrow> string \<Rightarrow> exn + json" where
  "py_getitem (JObj kvs) k = (case map_of kvs k of None \<Rightarrow> Inl KeyError | Some v \<Rightarrow> Inr v)"
| "py_getitem x k = Inl TypeError"

text \<open>\<open>x.get(k, d)\<close>: only a dict has the method.\<close>

fun py_get :: "json \<Rightarrow> string \<Rightarrow> json \<Rightarrow> exn + json" where
  "py_get (JObj kvs) k d = Inr (case map_of kvs k of None \<Rightarrow> d | Some v \<Rightarrow> v)"
| "py_get x k d = Inl AttributeError"

text \<open>\<open>str.upper\<close> on ASCII text: the letters a to z move to A to Z.\<close>

definition is_lower :: "char \<Rightarrow> bool" where
  "is_lower c = (97 \<le> (of_char c :: nat) \<and> (of_char c :: nat) \<le> 122)"

definition upper_char :: "char \<Rightarrow> char" where
  "upper_char c = (if is_lower c then char_of ((of_char c :: nat) - 32) else c)"

definition upper :: "string \<Rightarrow> string" where
  "upper s = map upper_char s"

text \<open>\<open>x.upper()\<close>: only a str has the method.\<close>

fun py_upper :: "json \<Rightarrow> exn + string" where
  "py_upper (JStr s) = Inr (upper s)"
| "py_upper x = Inl AttributeError"

subsection \<open>HTTP\<close>

datatype param = PFloat real | PInt int | PStr string

record request =
  url :: string
  params :: "(string \<times> param) list"
  headers :: "(string \<times> string) list"

text \<open>A response: its status, and what \<open>response.json()\<close> returns or raises.\<close>

record response =
  status_code :: nat
  json_body :: "exn + json"

definition raise_for_status :: "response \<Rightarrow> exn + unit" where
  "raise_for_status r =
     (if 400 \<le> status_code r \<and> status_code r < 600 then Inl (HTTPError (status_code r))
      else Inr ())"

definition REVERSE_GEOCODING_URL :: string where
  "REVERSE_GEOCODING_URL = ''https://nominatim.openstreetmap.org/reverse''"

definition CALENDARIFIC_API_URL :: string where
  "CALENDARIFIC_API_URL = ''https://calendarific.com/api/v2/holidays''"

subsection \<open>Session state, inputs and effects of a pass\<close>

type_synonym coord = "real \<times> real"

text \<open>
  \<open>st.session_state\<close>: for each key, \<open>None\<close> when the key is not in the state.
  \<open>clicked_location\<close> and \<open>country_code\<close> can hold Python's \<open>None\<close> (the inner option);
  \<open>country_name\<close> holds whatever the geocoder gave, or \<open>None\<close> as \<open>JNull\<close>.
\<close>

record session_state =
  center :: "coord option"
  zoom :: "int option"
  clicked_location :: "coord option option"
  country_code :: "string option option"
  country_name :: "json option"

definition empty_session :: session_state where
  "empty_session = \<lparr>center = None, zoom = None, clicked_location = None,
     country_code = None, country_name = None\<rparr>"

type_synonym holiday_table = "(json \<times> json \<times> json) list"

text \<open>
  What a pass reads from outside.
  \<^item> \<open>secrets\<close>: \<open>st.secrets\<close>, \<open>None\<close> when there is no secrets file;
  \<^item> \<open>map_data\<close>: what \<open>st_folium\<close> returns, \<open>None\<close> or a dict whose \<open>last_clicked\<close> is
    \<open>None\<close> or the clicked \<open>lat\<close> and \<open>lng\<close>;
  \<^item> \<open>http_get\<close>: \<open>requests.get\<close>, which raises or returns a response;
  \<^item> \<open>now_year\<close>: \<open>datetime.now().year\<close>;
  \<^item> \<open>dataframe\<close>: the pandas steps of lines 142 to 149 on the holidays value, which
    raise or give the rows of date, name and description that are displayed.
\<close>

record env =
  secrets :: "(string \<Rightarrow> string option) option"
  map_data :: "coord option option"
  http_get :: "request \<Rightarrow> exn + response"
  now_year :: int
  dataframe :: "json \<Rightarrow> exn + holiday_table"

datatype message =
    SecretNotConfigured
  | SecretHowToAdd
  | CountryNotFound
  | GeocodeRequestError exn
  | GeocodeUnknownError exn
  | NoHolidaysFound json
  | BadResponseFormat
  | HolidayRequestError exn
  | ApiServerMessage json
  | HolidayUnknownError exn
  | ClickPrompt

datatype effect =
    St_error message
  | St_warning message
  | St_info message
  | St_set_page_config
  | St_title
  | St_markdown
  | St_folium "coord option" "int option" "coord option"
  | St_subheader json string int
  | St_dataframe holiday_table
  | St_json json
  | Requests_get request

text \<open>
  How a pass ends: \<open>st.stop()\<close>, \<open>st.rerun()\<close> (both leave the script at once, through
  exceptions that \<open>except Exception\<close> does not catch), the last line, or an exception
  nothing catches.
\<close>

datatype outcome = Stopped | Rerun | Completed | Crashed exn

record pass =
  state :: session_state
  effects :: "effect list"
  outcome :: outcome

subsection \<open>The script\<close>

text \<open>Lines 11 to 18: the API key, or the exception the \<open>except\<close> clause catches.\<close>

definition load_api_key :: "env \<Rightarrow> exn + string" where
  "load_api_key e =
     (case secrets e of
        None \<Rightarrow> Inl FileNotFoundError
      | Some m \<Rightarrow> (case m ''CALENDARIFIC_API_KEY'' of None \<Rightarrow> Inl KeyError | Some k \<Rightarrow> Inr k))"

text \<open>Lines 28 to 33: a key that is not in the state gets its default.\<close>

definition init_session :: "session_state \<Rightarrow> session_state" where
  "init_session s = s
     \<lparr>center := Some (case center s of None \<Rightarrow> (37.5665, 126.9780) | Some c \<Rightarrow> c),
      zoom := Some (case zoom s of None \<Rightarrow> 4 | Some z \<Rightarrow> z),
      clicked_location := Some (case clicked_location s of None \<Rightarrow> None | Some l \<Rightarrow> l)\<rparr>"

text \<open>Lines 36 to 61: the page, and the map with a marker at the last click.\<close>

definition draw_page :: "session_state \<Rightarrow> effect list" where
  "draw_page s =
     [St_set_page_config, St_title, St_markdown,
      St_folium (center s) (zoom s)
        (case clicked_location s of Some (Some c) \<Rightarrow> Some c | _ \<Rightarrow> None)]"

text \<open>Lines 76 to 86: the reverse-geocoding request.\<close>

definition nominatim_request :: "coord \<Rightarrow> request" where
  "nominatim_request c =
     \<lparr>url = REVERSE_GEOCODING_URL,
      params = [(''lat'', PFloat (fst c)), (''lon'', PFloat (snd c)),
                (''format'', PStr ''json''), (''accept-language'', PStr ''en'')],
      headers = [(''User-Agent'', ''Streamlit Holiday App (user@example.com)'')]\<rparr>"

text \<open>
  Lines 86 to 93 and the test of line 91: the \<open>try\<close> body up to the state updates.
  \<open>Resolved\<close> is the branch of lines 92 to 99, \<open>NoMatch\<close> the \<open>else\<close> of line 101.
\<close>

datatype geocode = Resolved string json | NoMatch

definition geocode_lookup :: "env \<Rightarrow> coord \<Rightarrow> exn + geocode" where
  "geocode_lookup e c =
     and_then (http_get e (nominatim_request c)) (\<lambda>response.
     and_then (raise_for_status response) (\<lambda>_.
     and_then (json_body response) (\<lambda>geo_data.
     and_then
       (and_then (py_contains ''address'' geo_data) (\<lambda>has_address.
          if has_address
          then and_then (py_getitem geo_data ''address'') (py_contains ''country_code'')
          else Inr False)) (\<lambda>found.
     if found then
       and_then (py_getitem geo_data ''address'') (\<lambda>address.
       and_then (py_getitem address ''country_code'') (\<lambda>v.
       and_then (py_upper v) (\<lambda>code.
       and_then (py_getitem geo_data ''address'') (\<lambda>address'.
       and_then (py_get address' ''country'' (JStr code)) (\<lambda>name.
       Inr (Resolved code name))))))
     else Inr NoMatch))))"

text \<open>
  Lines 64 to 113. The result: the state, the effects, whether \<open>st.rerun()\<close> was
  called, and the response the variable \<open>response\<close> is bound to afterwards, if any.
\<close>

definition handle_click ::
  "env \<Rightarrow> session_state \<Rightarrow> session_state \<times> effect list \<times> bool \<times> response option" where
  "handle_click e s =
     (case map_data e of
        Some (Some c) \<Rightarrow>
          (let s1 = s\<lparr>clicked_location := Some (Some c), center := Some c, zoom := Some 6\<rparr>;
               req = nominatim_request c;
               bound = (case http_get e req of Inl ex \<Rightarrow> None | Inr r \<Rightarrow> Some r)
           in case geocode_lookup e c of
                Inr (Resolved code name) \<Rightarrow>
                  (s1\<lparr>country_code := Some (Some code), country_name := Some name\<rparr>,
                   [Requests_get req], True, bound)
              | Inr NoMatch \<Rightarrow>
                  (s1\<lparr>country_code := Some None, country_name := Some JNull\<rparr>,
                   [Requests_get req, St_warning CountryNotFound], False, bound)
              | Inl ex \<Rightarrow>
                  (s1\<lparr>country_code := Some None, country_name := Some JNull\<rparr>,
                   [Requests_get req,
                    St_error (if is_request_exception ex then GeocodeRequestError ex
                              else GeocodeUnknownError ex)],
                   False, bound))
      | _ \<Rightarrow> (s, [], False, None))"

text \<open>Lines 126 to 130: the holiday request.\<close>

definition calendarific_request :: "string \<Rightarrow> string \<Rightarrow> int \<Rightarrow> request" where
  "calendarific_request api_key code year =
     \<lparr>url = CALENDARIFIC_API_URL,
      params = [(''api_key'', PStr api_key), (''country'', PStr code), (''year'', PInt year)],
      headers = []\<rparr>"

text \<open>Lines 132 to 158: the \<open>try\<close> body, which raises or displays something.\<close>

definition fetch_holidays :: "env \<Rightarrow> string \<Rightarrow> json \<Rightarrow> string \<Rightarrow> exn + effect list" where
  "fetch_holidays e api_key name code =
     and_then (http_get e (calendarific_request api_key code (now_year e))) (\<lambda>response.
     and_then (raise_for_status response) (\<lambda>_.
     and_then (json_body response) (\<lambda>holiday_data.
     and_then
       (and_then (py_contains ''response'' holiday_data) (\<lambda>has_response.
          if has_response
          then and_then (py_getitem holiday_data ''response'') (py_contains ''holidays'')
          else Inr False)) (\<lambda>found.
     if found then
       and_then (py_getitem holiday_data ''response'') (\<lambda>r.
       and_then (py_getitem r ''holidays'') (\<lambda>holidays.
       if truthy holidays
       then and_then (dataframe e holidays) (\<lambda>df. Inr [St_dataframe df])
       else Inr [St_info (NoHolidaysFound name)]))
     else Inr [St_error BadResponseFormat, St_json holiday_data]))))"

text \<open>
  Lines 163 to 168: the server's own message, when the variable \<open>response\<close> is bound
  and its body has one; every exception in here (also the \<open>NameError\<close> of an unbound
  \<open>response\<close>) is swallowed.
\<close>

definition api_server_message :: "response option \<Rightarrow> effect list" where
  "api_server_message bound =
     (case bound of
        None \<Rightarrow> []
      | Some response \<Rightarrow>
          (case and_then (json_body response) (\<lambda>error_json.
                  and_then
                    (and_then (py_contains ''response'' error_json) (\<lambda>has_response.
                       if has_response
                       then and_then (py_getitem error_json ''response'') (py_contains ''error'')
                       else Inr False)) (\<lambda>found.
                  if found then
                    and_then (py_getitem error_json ''response'') (\<lambda>r.
                    and_then (py_getitem r ''error'') (\<lambda>err.
                    Inr [St_error (ApiServerMessage err)]))
                  else Inr []))
           of Inl ex \<Rightarrow> [] | Inr effs \<Rightarrow> effs))"

text \<open>
  Lines 124 to 171: the \<open>try\<close> with its two handlers. \<open>bound\<close> is what the variable
  \<open>response\<close> holds before line 132.
\<close>

definition holiday_results ::
  "env \<Rightarrow> string \<Rightarrow> response option \<Rightarrow> json \<Rightarrow> string \<Rightarrow> effect list" where
  "holiday_results e api_key bound name code =
     (let bound' =
            (case http_get e (calendarific_request api_key code (now_year e)) of
               Inl ex \<Rightarrow> bound
             | Inr r \<Rightarrow> Some r)
      in case fetch_holidays e api_key name code of
           Inr effs \<Rightarrow> effs
         | Inl ex \<Rightarrow>
             if is_request_exception ex
             then St_error (HolidayRequestError ex) # api_server_message bound'
             else [St_error (HolidayUnknownError ex)])"

text \<open>
  Lines 117 to 174. The guard is Python's truth test on
  \<open>st.session_state.get("country_code")\<close>: a missing key, \<open>None\<close> and the empty string
  all take the \<open>else\<close> of line 173. Line 119 reads \<open>country_name\<close> as an attribute,
  which raises when the key is missing.
\<close>

definition show_holidays ::
  "env \<Rightarrow> string \<Rightarrow> response option \<Rightarrow> session_state \<Rightarrow> effect list \<times> outcome" where
  "show_holidays e api_key bound s =
     (case country_code s of
        Some (Some code) \<Rightarrow>
          if code \<noteq> [] then
            (case country_name s of
               None \<Rightarrow> ([], Crashed AttributeError)
             | Some name \<Rightarrow>
                 ([St_subheader name code (now_year e),
                   Requests_get (calendarific_request api_key code (now_year e))] @
                  holiday_results e api_key bound name code,
                  Completed))
          else ([St_info ClickPrompt], Completed)
      | _ \<Rightarrow> ([St_info ClickPrompt], Completed))"

text \<open>The whole script, one pass.\<close>

definition run :: "env \<Rightarrow> session_state \<Rightarrow> pass" where
  "run e s =
     (case load_api_key e of
        Inl ex \<Rightarrow>
          \<lparr>state = s,
           effects = [St_error SecretNotConfigured, St_error SecretHowToAdd],
           outcome = Stopped\<rparr>
      | Inr api_key \<Rightarrow>
          (let s1 = init_session s in
           case handle_click e s1 of
             (s2, click_effects, rerun, bound) \<Rightarrow>
               if rerun
               then \<lparr>state = s2, effects = draw_page s1 @ click_effects, outcome = Rerun\<rparr>
               else (case show_holidays e api_key bound s2 of
                       (holiday_effects, oc) \<Rightarrow>
                         \<lparr>state = s2,
                          effects = draw_page s1 @ click_effects @ holiday_effects,
                          outcome = oc\<rparr>)))"

text \<open>A session: the passes in order, each with its own inputs, from a state with no keys.\<close>

fun run_session :: "env list \<Rightarrow> session_state \<Rightarrow> session_state" where
  "run_session [] s = s"
| "run_session (e # es) s = run_session es (state (run e s))"

subsection \<open>Notions the properties are stated with\<close>

text \<open>The HTTP requests among the effects of a pass, in order.\<close>

fun requests_of :: "effect list \<Rightarrow> request list" where
  "requests_of [] = []"
| "requests_of (Requests_get r # xs) = r # requests_of xs"
| "requests_of (x # xs) = requests_of xs"

text \<open>The requests of a pass to the holiday service: the holiday fetches it attempted.\<close>

definition holiday_requests :: "pass \<Rightarrow> request list" where
  "holiday_requests p = filter (\<lambda>r. url r = CALENDARIFIC_API_URL) (requests_of (effects p))"

text \<open>
  A country code is present in the session state: the key holds a string that is not
  empty, which is what the truth test of line 117 accepts.
\<close>

definition has_country_code :: "session_state \<Rightarrow> bool" where
  "has_country_code s = (case country_code s of Some (Some code) \<Rightarrow> code \<noteq> [] | _ \<Rightarrow> False)"

text \<open>\<open>country_code\<close> is set: the key is there and its value is not \<open>None\<close>.\<close>

definition country_is_set :: "session_state \<Rightarrow> bool" where
  "country_is_set s = (case country_code s of Some (Some code) \<Rightarrow> True | _ \<Rightarrow> False)"

text \<open>\<open>country_name\<close> is set: the key is there and its value is not \<open>None\<close>.\<close>

definition name_is_set :: "session_state \<Rightarrow> bool" where
  "name_is_set s = (case country_name s of None \<Rightarrow> False | Some n \<Rightarrow> n \<noteq> JNull)"

text \<open>The pass calls the geocoder: it has the API key, and the map reports a click.\<close>

definition geocode_called :: "env \<Rightarrow> bool" where
  "geocode_called e =
     (case load_api_key e of
        Inl ex \<Rightarrow> False
      | Inr k \<Rightarrow> (case map_data e of Some (Some c) \<Rightarrow> True | _ \<Rightarrow> False))"

text \<open>
  The \<open>country_code\<close> field of an answer of the geocoder: the string under
  \<open>country_code\<close> in the object under \<open>address\<close> of a JSON object.
\<close>

definition country_code_field :: "json \<Rightarrow> string option" where
  "country_code_field j =
     (case j of
        JObj body \<Rightarrow>
          (case map_of body ''address'' of
             Some (JObj addr) \<Rightarrow>
               (case map_of addr ''country_code'' of Some (JStr v) \<Rightarrow> Some v | _ \<Rightarrow> None)
           | _ \<Rightarrow> None)
      | _ \<Rightarrow> None)"

text \<open>
  What the geocode call of a pass found: the \<open>country_code\<close> field of the answer, when
  the request returned with a status that is no HTTP error and a JSON body that has the
  field. The call succeeded when it found one.
\<close>

definition geocoded_country_code :: "env \<Rightarrow> string option" where
  "geocoded_country_code e =
     (case map_data e of
        Some (Some c) \<Rightarrow>
          (case http_get e (nominatim_request c) of
             Inl ex \<Rightarrow> None
           | Inr r \<Rightarrow>
               if 400 \<le> status_code r \<and> status_code r < 600 then None
               else (case json_body r of
                       Inl ex \<Rightarrow> None
                     | Inr j \<Rightarrow> country_code_field j))
      | _ \<Rightarrow> None)"

definition geocode_succeeded :: "env \<Rightarrow> bool" where
  "geocode_succeeded e = (geocoded_country_code e \<noteq> None)"

text \<open>An upper-case string: none of its characters is a lower-case letter.\<close>

definition is_upper_case :: "string \<Rightarrow> bool" where
  "is_upper_case s = list_all (\<lambda>c. \<not> is_lower c) s"

text \<open>The most recent pass of a session that called the geocoder, if any.\<close>

definition last_geocode :: "env list \<Rightarrow> env option" where
  "last_geocode es =
     (case filter geocode_called es of [] \<Rightarrow> None | x # xs \<Rightarrow> Some (last (x # xs)))"


subsection \<open>Example inputs: the scenarios of the specification\<close>

text \<open>
  Secrets with the key; a network that is down, and a service that answers the requests
  to one URL with a status and a JSON body; a pass with a click and a pass without.
\<close>

definition example_secrets :: "(string \<Rightarrow> string option) option" where
  "example_secrets = Some (\<lambda>k. if k = ''CALENDARIFIC_API_KEY'' then Some ''secret'' else None)"

definition offline :: "request \<Rightarrow> exn + response" where
  "offline req = Inl (RequestException ''connection refused'')"

definition answer :: "string \<Rightarrow> nat \<Rightarrow> json \<Rightarrow> request \<Rightarrow> exn + response" where
  "answer u st j req =
     (if url req = u then Inr \<lparr>status_code = st, json_body = Inr j\<rparr>
      else Inl (RequestException ''connection refused''))"

definition no_table :: "json \<Rightarrow> exn + holiday_table" where
  "no_table j = Inl (OtherException ''not a list of holiday records'')"

definition seoul :: coord where
  "seoul = (37.5665, 126.9780)"

definition mid_ocean :: coord where
  "mid_ocean = (0, - 30)"

definition click_env :: "coord \<Rightarrow> (request \<Rightarrow> exn + response) \<Rightarrow> env" where
  "click_env c service =
     \<lparr>secrets = example_secrets, map_data = Some (Some c), http_get = service,
      now_year = 2025, dataframe = no_table\<rparr>"

definition render_env :: "(request \<Rightarrow> exn + response) \<Rightarrow> env" where
  "render_env service =
     \<lparr>secrets = example_secrets, map_data = Some None, http_get = service,
      now_year = 2025, dataframe = no_table\<rparr>"

text \<open>
  Answers of the geocoder for a click in Seoul (with and without the country's name) and
  in mid-ocean, and of the holiday service for a bad key and for a year with no holidays.
\<close>

definition korea_json :: json where
  "korea_json = JObj [(''place_id'', JNum 1),
     (''address'', JObj [(''country'', JStr ''South Korea''), (''country_code'', JStr ''kr'')])]"

definition code_only_json :: json where
  "code_only_json = JObj [(''address'', JObj [(''country_code'', JStr ''kr'')])]"

definition ocean_json :: json where
  "ocean_json = JObj [(''error'', JStr ''Unable to geocode'')]"

definition unauthorized_json :: json where
  "unauthorized_json = JObj [(''meta'', JObj [(''code'', JNum 401)]), (''response'', JArr [])]"

definition no_holidays_json :: json where
  "no_holidays_json =
     JObj [(''meta'', JObj [(''code'', JNum 200)]), (''response'', JObj [(''holidays'', JArr [])])]"

text \<open>The session after a click in Seoul was resolved; a pass without the API key.\<close>

definition korea_session :: session_state where
  "korea_session = \<lparr>center = Some seoul, zoom = Some 6, clicked_location = Some (Some seoul),
     country_code = Some (Some ''KR''), country_name = Some (JStr ''South Korea'')\<rparr>"

definition no_key_env :: env where
  "no_key_env = \<lparr>secrets = Some (\<lambda>k. None), map_data = Some (Some seoul), http_get = offline,
     now_year = 2025, dataframe = no_table\<rparr>"

definition seoul_click :: env where
  "seoul_click = click_env seoul (answer REVERSE_GEOCODING_URL 200 korea_json)"

definition code_only_click :: env where
  "code_only_click = click_env seoul (answer REVERSE_GEOCODING_URL 200 code_only_json)"

definition null_country_json :: json where
  "null_country_json =
     JObj [(''address'', JObj [(''country'', JNull), (''country_code'', JStr ''kr'')])]"

definition null_country_click :: env where
  "null_country_click = click_env seoul (answer REVERSE_GEOCODING_URL 200 null_country_json)"

definition ocean_click :: env where
  "ocean_click = click_env mid_ocean (answer REVERSE_GEOCODING_URL 200 ocean_json)"

section \<open>The passes of the script, case by case\<close>


lemma urls_differ: "REVERSE_GEOCODING_URL \<noteq> CALENDARIFIC_API_URL"
  by (simp add: REVERSE_GEOCODING_URL_def CALENDARIFIC_API_URL_def)

lemma py_getitem_Inr:
  "py_getitem x k = Inr v \<longleftrightarrow> (\<exists>kvs. x = JObj kvs \<and> map_of kvs k = Some v)"
  by (cases x) (auto split: option.splits)

lemma py_upper_Inr: "py_upper x = Inr s \<longleftrightarrow> (\<exists>v. x = JStr v \<and> s = upper v)"
  by (cases x) auto

lemma geocode_resolved_iff:
  "geocode_lookup e c = Inr (Resolved code name) \<longleftrightarrow>
   (\<exists>r body addr v. http_get e (nominatim_request c) = Inr r \<and>
      \<not> (400 \<le> status_code r \<and> status_code r < 600) \<and>
      json_body r = Inr (JObj body) \<and> map_of body ''address'' = Some (JObj addr) \<and>
      map_of addr ''country_code'' = Some (JStr v) \<and> code = upper v \<and>
      name = (case map_of addr ''country'' of None \<Rightarrow> JStr code | Some n \<Rightarrow> n))"
proof (cases "http_get e (nominatim_request c)")
  case (Inl ex)
  then show ?thesis by (simp add: geocode_lookup_def and_then_def)
next
  case (Inr r)
  show ?thesis
  proof (cases "json_body r")
    case (Inl ex)
    with Inr show ?thesis by (simp add: geocode_lookup_def and_then_def raise_for_status_def)
  next
    case jb: (Inr j)
    show ?thesis
    proof (cases "\<exists>body addr. j = JObj body \<and> map_of body ''address'' = Some (JObj addr)")
      case True
      then obtain body addr where j: "j = JObj body" "map_of body ''address'' = Some (JObj addr)"
        by blast
      show ?thesis using Inr jb j
        by (cases "map_of addr ''country_code''")
           (auto simp: geocode_lookup_def and_then_def raise_for_status_def py_upper_Inr
                 split: sum.splits option.splits)
    next
      case False
      then show ?thesis using Inr jb
        by (cases j)
          (auto simp: geocode_lookup_def and_then_def raise_for_status_def py_getitem_Inr
                 split: sum.splits option.splits if_splits)
    qed
  qed
qed

lemma handle_click_none:
  "(\<forall>c. map_data e \<noteq> Some (Some c)) \<Longrightarrow> handle_click e s = (s, [], False, None)"
  by (auto simp: handle_click_def split: option.splits)

lemma run_stopped:
  "load_api_key e = Inl ex \<Longrightarrow>
   run e s = \<lparr>state = s, effects = [St_error SecretNotConfigured, St_error SecretHowToAdd],
     outcome = Stopped\<rparr>"
  by (simp add: run_def)

lemma run_no_click:
  assumes "load_api_key e = Inr k" and "\<forall>c. map_data e \<noteq> Some (Some c)"
  shows "run e s = \<lparr>state = init_session s,
           effects = draw_page (init_session s) @ fst (show_holidays e k None (init_session s)),
           outcome = snd (show_holidays e k None (init_session s))\<rparr>"
  using assms handle_click_none [of e "init_session s"]
  by (simp add: run_def Let_def split: prod.splits)

lemma show_holidays_no_code:
  "country_code s = Some None \<Longrightarrow> show_holidays e k b s = ([St_info ClickPrompt], Completed)"
  by (simp add: show_holidays_def)

lemma run_click_resolved:
  assumes "load_api_key e = Inr k" and "map_data e = Some (Some c)"
    and "geocode_lookup e c = Inr (Resolved code name)"
  shows "run e s =
     \<lparr>state = (init_session s)\<lparr>clicked_location := Some (Some c), center := Some c,
                zoom := Some 6, country_code := Some (Some code), country_name := Some name\<rparr>,
      effects = draw_page (init_session s) @ [Requests_get (nominatim_request c)],
      outcome = Rerun\<rparr>"
  using assms by (simp add: run_def handle_click_def Let_def)

lemma run_click_no_match:
  assumes "load_api_key e = Inr k" and "map_data e = Some (Some c)"
    and "geocode_lookup e c = Inr NoMatch"
  shows "run e s =
     \<lparr>state = (init_session s)\<lparr>clicked_location := Some (Some c), center := Some c,
                zoom := Some 6, country_code := Some None, country_name := Some JNull\<rparr>,
      effects = draw_page (init_session s) @
        [Requests_get (nominatim_request c), St_warning CountryNotFound, St_info ClickPrompt],
      outcome = Completed\<rparr>"
  using assms by (simp add: run_def handle_click_def Let_def show_holidays_no_code)

lemma run_click_failed:
  assumes "load_api_key e = Inr k" and "map_data e = Some (Some c)"
    and "geocode_lookup e c = Inl ex"
  shows "run e s =
     \<lparr>state = (init_session s)\<lparr>clicked_location := Some (Some c), center := Some c,
                zoom := Some 6, country_code := Some None, country_name := Some JNull\<rparr>,
      effects = draw_page (init_session s) @
        [Requests_get (nominatim_request c),
         St_error (if is_request_exception ex then GeocodeRequestError ex
                   else GeocodeUnknownError ex),
         St_info ClickPrompt],
      outcome = Completed\<rparr>"
  using assms by (simp add: run_def handle_click_def Let_def show_holidays_no_code)

lemma requests_of_append: "requests_of (xs @ ys) = requests_of xs @ requests_of ys"
  by (induction xs rule: requests_of.induct) simp_all

lemma requests_of_draw_page: "requests_of (draw_page s) = []"
  by (simp add: draw_page_def)

lemma fetch_holidays_effects:
  "fetch_holidays e k name code = Inr effs \<Longrightarrow>
   (\<exists>t. effs = [St_dataframe t]) \<or> effs = [St_info (NoHolidaysFound name)] \<or>
   (\<exists>j. effs = [St_error BadResponseFormat, St_json j])"
  by (auto simp: fetch_holidays_def and_then_def split: sum.splits if_splits)

lemma api_server_message_effects:
  "api_server_message b = [] \<or> (\<exists>j. api_server_message b = [St_error (ApiServerMessage j)])"
  by (auto simp: api_server_message_def and_then_def split: option.splits sum.splits if_splits)

lemma requests_of_holiday_results: "requests_of (holiday_results e k b name code) = []"
proof (cases "fetch_holidays e k name code")
  case (Inl ex)
  then show ?thesis
    using api_server_message_effects
      [of "case http_get e (calendarific_request k code (now_year e)) of
             Inl ex \<Rightarrow> b | Inr r \<Rightarrow> Some r"]
    by (auto simp: holiday_results_def)
next
  case (Inr effs)
  then show ?thesis using fetch_holidays_effects [OF Inr] by (auto simp: holiday_results_def)
qed

lemma requests_of_show_holidays:
  "requests_of (fst (show_holidays e k b s)) =
     (case country_code s of
        Some (Some code) \<Rightarrow>
          if code \<noteq> [] \<and> country_name s \<noteq> None
          then [calendarific_request k code (now_year e)] else []
      | _ \<Rightarrow> [])"
  by (auto simp: show_holidays_def requests_of_holiday_results requests_of_append
        split: option.splits)

lemma outcome_show_holidays:
  "snd (show_holidays e k b s) =
     (if has_country_code s \<and> country_name s = None then Crashed AttributeError else Completed)"
  by (auto simp: show_holidays_def has_country_code_def split: option.splits)



lemma run_cases [case_names Stopped NoClick Resolved NoMatch Failed]:
  obtains
    (Stopped) ex where "load_api_key e = Inl ex"
  | (NoClick) k where "load_api_key e = Inr k" and "\<forall>c. map_data e \<noteq> Some (Some c)"
  | (Resolved) k c code name where "load_api_key e = Inr k" and "map_data e = Some (Some c)"
      and "geocode_lookup e c = Inr (Resolved code name)"
  | (NoMatch) k c where "load_api_key e = Inr k" and "map_data e = Some (Some c)"
      and "geocode_lookup e c = Inr NoMatch"
  | (Failed) k c ex where "load_api_key e = Inr k" and "map_data e = Some (Some c)"
      and "geocode_lookup e c = Inl ex"
proof (cases "load_api_key e")
  case (Inl ex)
  then show ?thesis by (rule Stopped)
next
  case key: (Inr k)
  show ?thesis
  proof (cases "\<exists>c. map_data e = Some (Some c)")
    case False
    with key show ?thesis by (intro NoClick) auto
  next
    case True
    then obtain c where c: "map_data e = Some (Some c)" by blast
    show ?thesis
    proof (cases "geocode_lookup e c")
      case (Inl ex)
      with key c show ?thesis by (rule Failed)
    next
      case (Inr g)
      with key c show ?thesis by (cases g) (auto intro: Resolved NoMatch)
    qed
  qed
qed

lemma set_requests_of: "r \<in> set (requests_of xs) \<longleftrightarrow> Requests_get r \<in> set xs"
  by (induction xs rule: requests_of.induct) auto

lemma country_code_field_Some:
  "country_code_field j = Some v \<longleftrightarrow>
   (\<exists>body addr. j = JObj body \<and> map_of body ''address'' = Some (JObj addr) \<and>
      map_of addr ''country_code'' = Some (JStr v))"
  by (auto simp: country_code_field_def split: json.splits option.splits)

lemma geocoded_country_code_Some:
  "geocoded_country_code e = Some v \<longleftrightarrow>
   (\<exists>c r body addr. map_data e = Some (Some c) \<and> http_get e (nominatim_request c) = Inr r \<and>
      \<not> (400 \<le> status_code r \<and> status_code r < 600) \<and> json_body r = Inr (JObj body) \<and>
      map_of body ''address'' = Some (JObj addr) \<and> map_of addr ''country_code'' = Some (JStr v))"
proof (cases "\<exists>c. map_data e = Some (Some c)")
  case False
  then show ?thesis by (auto simp: geocoded_country_code_def split: option.splits)
next
  case True
  then obtain c where c: "map_data e = Some (Some c)" by blast
  show ?thesis
  proof (cases "http_get e (nominatim_request c)")
    case (Inl ex)
    with c show ?thesis by (simp add: geocoded_country_code_def)
  next
    case (Inr r)
    with c show ?thesis
      by (cases "json_body r") (auto simp: geocoded_country_code_def country_code_field_Some)
  qed
qed

lemma geocode_lookup_resolved:
  assumes "map_data e = Some (Some c)"
  shows "geocode_lookup e c = Inr (Resolved code name) \<longleftrightarrow>
    (\<exists>v. geocoded_country_code e = Some v \<and> code = upper v) \<and>
    (\<exists>r body addr. http_get e (nominatim_request c) = Inr r \<and> json_body r = Inr (JObj body) \<and>
       map_of body ''address'' = Some (JObj addr) \<and>
       name = (case map_of addr ''country'' of None \<Rightarrow> JStr code | Some n \<Rightarrow> n))"
  using assms unfolding geocode_resolved_iff geocoded_country_code_Some by auto

lemma geocode_succeeded_iff:
  "geocode_succeeded e \<longleftrightarrow>
   (\<exists>c code name. map_data e = Some (Some c) \<and> geocode_lookup e c = Inr (Resolved code name))"
proof
  assume "geocode_succeeded e"
  then obtain v where "geocoded_country_code e = Some v"
    by (auto simp: geocode_succeeded_def)
  then show "\<exists>c code name. map_data e = Some (Some c) \<and>
      geocode_lookup e c = Inr (Resolved code name)"
    unfolding geocoded_country_code_Some geocode_resolved_iff by blast
next
  assume "\<exists>c code name. map_data e = Some (Some c) \<and>
      geocode_lookup e c = Inr (Resolved code name)"
  then show "geocode_succeeded e"
    by (auto simp: geocode_succeeded_def geocode_lookup_resolved)
qed

lemma init_session_country:
  "country_code (init_session s) = country_code s" "country_name (init_session s) = country_name s"
  by (simp_all add: init_session_def)

lemma holiday_requests_run:
  "holiday_requests (run e s) =
     (case load_api_key e of
        Inl ex \<Rightarrow> []
      | Inr k \<Rightarrow>
          if \<exists>c. map_data e = Some (Some c) then []
          else (case country_code s of
                  Some (Some code) \<Rightarrow>
                    if code \<noteq> [] \<and> country_name s \<noteq> None
                    then [calendarific_request k code (now_year e)] else []
                | _ \<Rightarrow> []))"
proof (cases rule: run_cases [of e])
  case (Stopped ex)
  then show ?thesis by (simp add: holiday_requests_def run_stopped)
next
  case (NoClick k)
  then show ?thesis
    by (auto simp: holiday_requests_def run_no_click requests_of_append requests_of_draw_page
          requests_of_show_holidays init_session_country calendarific_request_def
          split: option.splits)
next
  case (Resolved k c code name)
  with urls_differ show ?thesis
    by (simp add: holiday_requests_def run_click_resolved requests_of_append
          requests_of_draw_page nominatim_request_def)
next
  case (NoMatch k c)
  with urls_differ show ?thesis
    by (simp add: holiday_requests_def run_click_no_match requests_of_append
          requests_of_draw_page nominatim_request_def)
next
  case (Failed k c ex)
  with urls_differ show ?thesis
    by (simp add: holiday_requests_def run_click_failed requests_of_append
          requests_of_draw_page nominatim_request_def)
qed

lemma completed_with_code_iff:
  "outcome (run e s) = Completed \<and> has_country_code (state (run e s)) \<longleftrightarrow>
   (\<exists>k. load_api_key e = Inr k) \<and> (\<forall>c. map_data e \<noteq> Some (Some c)) \<and>
   has_country_code s \<and> country_name s \<noteq> None"
proof (cases rule: run_cases [of e])
  case (Stopped ex)
  then show ?thesis by (simp add: run_stopped)
next
  case (NoClick k)
  then show ?thesis
    by (auto simp: run_no_click outcome_show_holidays has_country_code_def init_session_country)
next
  case (Resolved k c code name)
  then show ?thesis by (simp add: run_click_resolved)
next
  case (NoMatch k c)
  then show ?thesis by (simp add: run_click_no_match has_country_code_def)
next
  case (Failed k c ex)
  then show ?thesis by (simp add: run_click_failed has_country_code_def)
qed


lemma holiday_request_sent:
  assumes "Requests_get req \<in> set (effects (run e s))" and "url req = CALENDARIFIC_API_URL"
  obtains k code name where "load_api_key e = Inr k" and "\<forall>c. map_data e \<noteq> Some (Some c)"
    and "country_code s = Some (Some code)" and "code \<noteq> []" and "country_name s = Some name"
    and "req = calendarific_request k code (now_year e)"
    and "run e s = \<lparr>state = init_session s,
           effects = draw_page (init_session s) @
             [St_subheader name code (now_year e), Requests_get req] @
             holiday_results e k None name code,
           outcome = Completed\<rparr>"
proof -
  from assms have mem: "req \<in> set (holiday_requests (run e s))"
    by (simp add: holiday_requests_def set_requests_of)
  then obtain k where k: "load_api_key e = Inr k"
    by (cases "load_api_key e") (auto simp: holiday_requests_run)
  from mem k have nc: "\<forall>c. map_data e \<noteq> Some (Some c)"
    by (auto simp: holiday_requests_run split: if_splits)
  from mem k nc have "\<exists>code name. country_code s = Some (Some code) \<and> code \<noteq> [] \<and>
      country_name s = Some name \<and> req = calendarific_request k code (now_year e)"
    by (cases "country_code s") (auto simp: holiday_requests_run split: if_splits option.splits)
  then obtain code name where c: "country_code s = Some (Some code)" "code \<noteq> []"
      "country_name s = Some name" "req = calendarific_request k code (now_year e)"
    by blast
  have "run e s = \<lparr>state = init_session s,
           effects = draw_page (init_session s) @
             [St_subheader name code (now_year e), Requests_get req] @
             holiday_results e k None name code,
           outcome = Completed\<rparr>"
    using c by (simp add: run_no_click [OF k nc] show_holidays_def init_session_country)
  with k nc c show ?thesis by (rule that)
qed

lemma holiday_results_failed:
  assumes "fetch_holidays e k name code = Inl ex"
  shows "\<exists>m rest. holiday_results e k b name code = St_error m # rest \<and>
           (rest = [] \<or> (\<exists>j. rest = [St_error (ApiServerMessage j)]))"
  using assms api_server_message_effects
      [of "case http_get e (calendarific_request k code (now_year e)) of
             Inl ex \<Rightarrow> b | Inr r \<Rightarrow> Some r"]
  by (auto simp: holiday_results_def)

lemma fetch_holidays_failed:
  assumes "(\<exists>ex. http_get e (calendarific_request k code (now_year e)) = Inl ex) \<or>
    (\<exists>r. http_get e (calendarific_request k code (now_year e)) = Inr r \<and>
       400 \<le> status_code r \<and> status_code r < 600)"
  shows "\<exists>ex. fetch_holidays e k name code = Inl ex"
  using assms by (auto simp: fetch_holidays_def and_then_def raise_for_status_def)

lemma holiday_results_empty:
  assumes "http_get e (calendarific_request k code (now_year e)) = Inr r"
    and "\<not> (400 \<le> status_code r \<and> status_code r < 600)"
    and "json_body r = Inr (JObj body)" and "map_of body ''response'' = Some (JObj rb)"
    and "map_of rb ''holidays'' = Some (JArr [])"
  shows "holiday_results e k b name code = [St_info (NoHolidaysFound name)]"
  using assms
  by (simp add: holiday_results_def fetch_holidays_def and_then_def raise_for_status_def)

lemma run_geocoded:
  assumes "geocode_called e"
  shows "country_code (state (run e s)) =
     (case geocoded_country_code e of None \<Rightarrow> Some None | Some v \<Rightarrow> Some (Some (upper v)))"
proof -
  from assms obtain k c where k: "load_api_key e = Inr k" and c: "map_data e = Some (Some c)"
    by (auto simp: geocode_called_def split: sum.splits option.splits)
  show ?thesis
  proof (cases "geocode_lookup e c")
    case (Inl ex)
    with c have "\<not> geocode_succeeded e" by (simp add: geocode_succeeded_iff)
    with run_click_failed [OF k c Inl] show ?thesis by (simp add: geocode_succeeded_def)
  next
    case (Inr g)
    show ?thesis
    proof (cases g)
      case NoMatch
      with Inr c have "\<not> geocode_succeeded e" by (simp add: geocode_succeeded_iff)
      with run_click_no_match [OF k c] Inr NoMatch show ?thesis
        by (simp add: geocode_succeeded_def)
    next
      case (Resolved code name)
      with Inr geocode_lookup_resolved [OF c, of code name]
      obtain v where "geocoded_country_code e = Some v" "code = upper v" by blast
      with run_click_resolved [OF k c] Inr Resolved show ?thesis by simp
    qed
  qed
qed

lemma run_not_geocoded:
  assumes "\<not> geocode_called e"
  shows "country_code (state (run e s)) = country_code s"
proof (cases "load_api_key e")
  case (Inl ex)
  then show ?thesis by (simp add: run_stopped)
next
  case (Inr k)
  with assms have "\<forall>c. map_data e \<noteq> Some (Some c)"
    by (auto simp: geocode_called_def)
  with Inr show ?thesis by (simp add: run_no_click init_session_country)
qed

lemma last_geocode_Cons:
  "last_geocode (e # es) =
     (case last_geocode es of
        Some e' \<Rightarrow> Some e'
      | None \<Rightarrow> if geocode_called e then Some e else None)"
  by (simp add: last_geocode_def split: list.splits)

lemma session_country_code:
  "country_code (run_session es s) =
     (case last_geocode es of
        None \<Rightarrow> country_code s
      | Some e \<Rightarrow>
          (case geocoded_country_code e of None \<Rightarrow> Some None | Some v \<Rightarrow> Some (Some (upper v))))"
proof (induction es arbitrary: s)
  case Nil
  show ?case by (simp add: last_geocode_def)
next
  case (Cons e es)
  show ?case
    by (cases "geocode_called e")
       (simp_all add: Cons.IH last_geocode_Cons run_geocoded run_not_geocoded
          split: option.splits)
qed

lemma not_lower_upper_char: "\<not> is_lower (upper_char c)"
  by (auto simp: upper_char_def is_lower_def)

lemma is_upper_case_upper: "is_upper_case (upper v)"
  by (simp add: is_upper_case_def upper_def list_all_iff not_lower_upper_char)

lemma upper_idem: "upper (upper v) = upper v"
  using not_lower_upper_char by (simp add: upper_def upper_char_def)

text \<open>
  Two borders of the guards, as the script has them. An answer whose \<open>country_code\<close> is
  there but is no string raises in \<open>upper()\<close> and is handled as a failed lookup; and an
  empty string stored as \<open>country_code\<close> fails the truth test of line 117 like \<open>None\<close>.
\<close>

lemma country_code_not_a_string:
  assumes "geocode_called e" and "map_data e = Some (Some c)"
    and "http_get e (nominatim_request c) = Inr r" and "json_body r = Inr (JObj body)"
    and "map_of body ''address'' = Some (JObj addr)"
    and "map_of addr ''country_code'' = Some v" and "\<forall>w. v \<noteq> JStr w"
  shows "country_code (state (run e s)) = Some None"
proof -
  from assms(2-7) have "geocoded_country_code e = None"
    by (cases "geocoded_country_code e") (auto simp: geocoded_country_code_Some)
  with run_geocoded [OF assms(1), of s] show ?thesis by simp
qed

lemma empty_country_code_not_fetched:
  "country_code s = Some (Some []) \<Longrightarrow> holiday_requests (run e s) = []"
  by (simp add: holiday_requests_run split: sum.splits)

lemma run_name_present:
  assumes "country_is_set s \<longrightarrow> country_name s \<noteq> None"
  shows "country_is_set (state (run e s)) \<longrightarrow> country_name (state (run e s)) \<noteq> None"
proof (cases rule: run_cases [of e])
  case (Stopped ex)
  with assms show ?thesis by (simp add: run_stopped)
next
  case (NoClick k)
  with assms show ?thesis
    by (simp add: run_no_click country_is_set_def init_session_country)
next
  case (Resolved k c code name)
  then show ?thesis by (simp add: run_click_resolved)
next
  case (NoMatch k c)
  then show ?thesis by (simp add: run_click_no_match)
next
  case (Failed k c ex)
  then show ?thesis by (simp add: run_click_failed)
qed

lemma session_name_present:
  "(country_is_set s \<longrightarrow> country_name s \<noteq> None) \<Longrightarrow>
   country_is_set (run_session es s) \<longrightarrow> country_name (run_session es s) \<noteq> None"
proof (induction es arbitrary: s)
  case Nil
  then show ?case by simp
next
  case (Cons e es)
  from Cons.IH [OF run_name_present [OF Cons.prems, of e]] show ?case by simp
qed

lemmas example_defs =
  example_secrets_def offline_def answer_def no_table_def seoul_def mid_ocean_def click_env_def
  render_env_def korea_json_def code_only_json_def ocean_json_def unauthorized_json_def
  no_holidays_json_def korea_session_def no_key_env_def seoul_click_def code_only_click_def
  ocean_click_def null_country_json_def null_country_click_def

lemma upper_kr: "upper ''kr'' = ''KR''"
  by (simp add: upper_def upper_char_def is_lower_def char_of_eq_iff)

section \<open>The properties\<close>

text \<open>
  C3. If the configured API key \<open>CALENDARIFIC_API_KEY\<close> is absent (no secrets file, or a
  file without the key), the pass shows the two configuration errors and stops at once:
  these two messages are everything it displays, so no page, map or result is drawn, the
  session state is left as it was, and no HTTP request is made.
\<close>

theorem missing_api_key_halts:
  assumes "secrets e = None \<or> (\<exists>m. secrets e = Some m \<and> m ''CALENDARIFIC_API_KEY'' = None)"
  shows "run e s = \<lparr>state = s,
           effects = [St_error SecretNotConfigured, St_error SecretHowToAdd],
           outcome = Stopped\<rparr> \<and>
         requests_of (effects (run e s)) = []"
proof -
  from assms have "\<exists>ex. load_api_key e = Inl ex"
    by (auto simp: load_api_key_def)
  then show ?thesis by (auto simp: run_stopped)
qed

theorem missing_api_key_halts_witness:
  "(\<exists>m. secrets no_key_env = Some m \<and> m ''CALENDARIFIC_API_KEY'' = None) \<and>
   run no_key_env korea_session = \<lparr>state = korea_session,
      effects = [St_error SecretNotConfigured, St_error SecretHowToAdd], outcome = Stopped\<rparr> \<and>
   requests_of (effects (run no_key_env korea_session)) = []"
proof -
  have h: "\<exists>m. secrets no_key_env = Some m \<and> m ''CALENDARIFIC_API_KEY'' = None"
    by (simp add: no_key_env_def)
  then have "secrets no_key_env = None \<or>
      (\<exists>m. secrets no_key_env = Some m \<and> m ''CALENDARIFIC_API_KEY'' = None)" by simp
  from missing_api_key_halts [OF this, of korea_session] h show ?thesis by simp
qed

text \<open>
  C7. Every click that the script handles, from any session state and whatever the
  geocoder answers afterwards, records the clicked coordinate as the clicked location,
  moves the map center to that coordinate and sets the zoom level to 6.
\<close>

theorem click_moves_map:
  assumes "load_api_key e = Inr k" and "map_data e = Some (Some c)"
  shows "clicked_location (state (run e s)) = Some (Some c) \<and>
         center (state (run e s)) = Some c \<and>
         zoom (state (run e s)) = Some 6"
proof (cases "geocode_lookup e c")
  case (Inl ex)
  from run_click_failed [OF assms Inl] show ?thesis by simp
next
  case (Inr g)
  show ?thesis
  proof (cases g)
    case (Resolved code name)
    with Inr run_click_resolved [OF assms] show ?thesis by simp
  next
    case NoMatch
    with Inr run_click_no_match [OF assms] show ?thesis by simp
  qed
qed

lemma example_key: "load_api_key (click_env c service) = Inr ''secret''"
  "load_api_key (render_env service) = Inr ''secret''"
  by (simp_all add: load_api_key_def click_env_def render_env_def example_secrets_def)

theorem click_moves_map_witness:
  "load_api_key (click_env mid_ocean offline) = Inr ''secret'' \<and>
   map_data (click_env mid_ocean offline) = Some (Some mid_ocean) \<and>
   clicked_location (state (run (click_env mid_ocean offline) korea_session)) = Some (Some mid_ocean) \<and>
   center (state (run (click_env mid_ocean offline) korea_session)) = Some mid_ocean \<and>
   zoom (state (run (click_env mid_ocean offline) korea_session)) = Some 6"
proof -
  have k: "load_api_key (click_env mid_ocean offline) = Inr ''secret''"
    by (rule example_key)
  have c: "map_data (click_env mid_ocean offline) = Some (Some mid_ocean)"
    by (simp add: click_env_def)
  from click_moves_map [OF k c, of korea_session] k c show ?thesis by simp
qed


text \<open>
  C4. For every click whose geocode attempt fails (the request raises, the status is an
  HTTP error, the body is no JSON, or the handling of the answer raises) or finds no
  country, the pass sets \<open>country_code\<close> and \<open>country_name\<close> to \<open>None\<close>, whatever was
  stored before, shows a warning or an error message, and does not call \<open>st.rerun()\<close>:
  the pass runs to its last line.
\<close>

theorem unresolved_click_clears_country:
  assumes "load_api_key e = Inr k" and "map_data e = Some (Some c)"
    and "\<not> geocode_succeeded e"
  shows "country_code (state (run e s)) = Some None \<and>
         country_name (state (run e s)) = Some JNull \<and>
         (\<exists>m. St_warning m \<in> set (effects (run e s)) \<or> St_error m \<in> set (effects (run e s))) \<and>
         outcome (run e s) = Completed"
proof (cases "geocode_lookup e c")
  case (Inl ex)
  from run_click_failed [OF assms(1,2) Inl] show ?thesis by auto
next
  case (Inr g)
  with assms(2,3) have "g = NoMatch"
    by (cases g) (auto simp: geocode_succeeded_iff)
  with Inr run_click_no_match [OF assms(1,2)] show ?thesis by auto
qed

theorem unresolved_click_clears_country_witness:
  "load_api_key ocean_click = Inr ''secret'' \<and>
   map_data ocean_click = Some (Some mid_ocean) \<and>
   \<not> geocode_succeeded ocean_click \<and>
   country_code korea_session = Some (Some ''KR'') \<and>
   country_code (state (run ocean_click korea_session)) = Some None \<and>
   country_name (state (run ocean_click korea_session)) = Some JNull \<and>
   (\<exists>m. St_warning m \<in> set (effects (run ocean_click korea_session)) \<or>
        St_error m \<in> set (effects (run ocean_click korea_session))) \<and>
   outcome (run ocean_click korea_session) = Completed"
proof -
  have k: "load_api_key ocean_click = Inr ''secret''"
    unfolding ocean_click_def by (rule example_key)
  have c: "map_data ocean_click = Some (Some mid_ocean)"
    by (simp add: ocean_click_def click_env_def)
  have f: "\<not> geocode_succeeded ocean_click"
    by (simp add: geocode_succeeded_def geocoded_country_code_def ocean_click_def click_env_def
          answer_def nominatim_request_def ocean_json_def country_code_field_def)
  have s: "country_code korea_session = Some (Some ''KR'')"
    by (simp add: korea_session_def)
  from unresolved_click_clears_country [OF k c f, of korea_session] k c f s
  show ?thesis by simp
qed

text \<open>
  C8. Every request a pass sends to the reverse-geocoding service carries exactly the
  query parameters \<open>lat\<close> and \<open>lon\<close> of the click, \<open>format=json\<close> and
  \<open>accept-language=en\<close>, and a \<open>User-Agent\<close> header with a text that is not empty.
\<close>

theorem geocode_request_shape:
  assumes "Requests_get req \<in> set (effects (run e s))"
    and "url req = REVERSE_GEOCODING_URL"
  shows "\<exists>lat lon ua. map_data e = Some (Some (lat, lon)) \<and>
           params req = [(''lat'', PFloat lat), (''lon'', PFloat lon),
                         (''format'', PStr ''json''), (''accept-language'', PStr ''en'')] \<and>
           map_of (headers req) ''User-Agent'' = Some ua \<and> ua \<noteq> []"
proof -
  from assms(1) have mem: "req \<in> set (requests_of (effects (run e s)))"
    by (simp add: set_requests_of)
  have shape: "\<exists>lat lon ua. map_data e = Some (Some (lat, lon)) \<and>
           params (nominatim_request c) = [(''lat'', PFloat lat), (''lon'', PFloat lon),
                         (''format'', PStr ''json''), (''accept-language'', PStr ''en'')] \<and>
           map_of (headers (nominatim_request c)) ''User-Agent'' = Some ua \<and> ua \<noteq> []"
    if "map_data e = Some (Some c)" for c
    using that by (cases c) (simp add: nominatim_request_def)
  show ?thesis
  proof (cases rule: run_cases [of e])
    case (Stopped ex)
    with mem show ?thesis by (simp add: run_stopped)
  next
    case (NoClick k)
    with mem assms(2) urls_differ show ?thesis
      by (auto simp: run_no_click requests_of_append requests_of_draw_page
            requests_of_show_holidays calendarific_request_def split: option.splits if_splits)
  next
    case (Resolved k c code name)
    from mem run_click_resolved [OF Resolved] have "req = nominatim_request c"
      by (simp add: requests_of_append requests_of_draw_page)
    with shape [OF Resolved(2)] show ?thesis by simp
  next
    case (NoMatch k c)
    from mem run_click_no_match [OF NoMatch] have "req = nominatim_request c"
      by (simp add: requests_of_append requests_of_draw_page)
    with shape [OF NoMatch(2)] show ?thesis by simp
  next
    case (Failed k c ex)
    from mem run_click_failed [OF Failed] have "req = nominatim_request c"
      by (simp add: requests_of_append requests_of_draw_page)
    with shape [OF Failed(2)] show ?thesis by simp
  qed
qed

theorem geocode_request_shape_witness:
  "Requests_get (nominatim_request seoul) \<in> set (effects (run (click_env seoul offline) empty_session)) \<and>
   url (nominatim_request seoul) = REVERSE_GEOCODING_URL \<and>
   (\<exists>lat lon ua. map_data (click_env seoul offline) = Some (Some (lat, lon)) \<and>
      params (nominatim_request seoul) = [(''lat'', PFloat lat), (''lon'', PFloat lon),
         (''format'', PStr ''json''), (''accept-language'', PStr ''en'')] \<and>
      map_of (headers (nominatim_request seoul)) ''User-Agent'' = Some ua \<and> ua \<noteq> [])"
proof -
  let ?e = "click_env seoul offline"
  have k: "load_api_key ?e = Inr ''secret''" by (rule example_key)
  have c: "map_data ?e = Some (Some seoul)" by (simp add: click_env_def)
  have g: "geocode_lookup ?e seoul = Inl (RequestException ''connection refused'')"
    by (simp add: geocode_lookup_def and_then_def click_env_def offline_def)
  have m: "Requests_get (nominatim_request seoul) \<in> set (effects (run ?e empty_session))"
    by (simp add: run_click_failed [OF k c g])
  have u: "url (nominatim_request seoul) = REVERSE_GEOCODING_URL"
    by (simp add: nominatim_request_def)
  from geocode_request_shape [OF m u] m u show ?thesis by simp
qed


text \<open>
  C2. In every pass, a request to the holiday service is made exactly when the pass
  reaches the results section (it is not ended by \<open>st.stop()\<close>, \<open>st.rerun()\<close> or an
  exception before) with a country code in the session state, that is a string that is
  not empty: with the key unset or \<open>None\<close> no request is made. Nothing is cached: the
  pass then sends exactly one request, and the same pass run again on the resulting
  state sends it again.
\<close>

theorem holiday_fetch_guard:
  "(holiday_requests (run e s) \<noteq> []) =
     (outcome (run e s) = Completed \<and> has_country_code (state (run e s))) \<and>
   (country_code (state (run e s)) = None \<or> country_code (state (run e s)) = Some None
      \<longrightarrow> holiday_requests (run e s) = []) \<and>
   (outcome (run e s) = Completed \<and> has_country_code (state (run e s)) \<longrightarrow>
      (\<exists>k code. load_api_key e = Inr k \<and> country_code (state (run e s)) = Some (Some code) \<and>
         holiday_requests (run e s) = [calendarific_request k code (now_year e)] \<and>
         holiday_requests (run e (state (run e s))) = [calendarific_request k code (now_year e)]))"
proof -
  have iff: "(holiday_requests (run e s) \<noteq> []) =
     (outcome (run e s) = Completed \<and> has_country_code (state (run e s)))"
    unfolding completed_with_code_iff
    by (auto simp: holiday_requests_run has_country_code_def split: sum.splits option.splits)
  have none: "holiday_requests (run e s) = []"
    if "country_code (state (run e s)) = None \<or> country_code (state (run e s)) = Some None"
    using that iff by (auto simp: has_country_code_def)
  have again: "\<exists>k code. load_api_key e = Inr k \<and>
         country_code (state (run e s)) = Some (Some code) \<and>
         holiday_requests (run e s) = [calendarific_request k code (now_year e)] \<and>
         holiday_requests (run e (state (run e s))) = [calendarific_request k code (now_year e)]"
    if "outcome (run e s) = Completed \<and> has_country_code (state (run e s))"
  proof -
    from that obtain k where k: "load_api_key e = Inr k"
      and nc: "\<forall>c. map_data e \<noteq> Some (Some c)"
      and hc: "has_country_code s" and nm: "country_name s \<noteq> None"
      unfolding completed_with_code_iff by blast
    from hc obtain code where code: "country_code s = Some (Some code)" "code \<noteq> []"
      by (auto simp: has_country_code_def split: option.splits)
    have st: "state (run e s) = init_session s" using k nc by (simp add: run_no_click)
    show ?thesis using k nc code nm
      by (simp add: st holiday_requests_run init_session_country)
  qed
  from iff none again show ?thesis by blast
qed

theorem holiday_fetch_guard_witness:
  "holiday_requests (run (render_env offline) korea_session) =
     [calendarific_request ''secret'' ''KR'' 2025] \<and>
   holiday_requests (run (render_env offline) (state (run (render_env offline) korea_session))) =
     [calendarific_request ''secret'' ''KR'' 2025] \<and>
   outcome (run (render_env offline) korea_session) = Completed \<and>
   has_country_code (state (run (render_env offline) korea_session)) \<and>
   country_code (state (run (click_env mid_ocean offline) korea_session)) = Some None \<and>
   holiday_requests (run (click_env mid_ocean offline) korea_session) = []"
proof -
  let ?e = "render_env offline"
  let ?f = "click_env mid_ocean offline"
  have k: "load_api_key ?e = Inr ''secret''" by (rule example_key)
  have nc: "\<forall>c. map_data ?e \<noteq> Some (Some c)" by (simp add: render_env_def)
  have st: "state (run ?e korea_session) = korea_session"
    by (simp add: run_no_click [OF k nc] init_session_def korea_session_def)
  have oc: "outcome (run ?e korea_session) = Completed"
    by (simp add: run_no_click [OF k nc] outcome_show_holidays init_session_def korea_session_def)
  have hc: "has_country_code (state (run ?e korea_session))"
    unfolding st by (simp add: has_country_code_def korea_session_def)
  have cc: "country_code (state (run ?e korea_session)) = Some (Some ''KR'')"
    unfolding st by (simp add: korea_session_def)
  have yr: "now_year ?e = 2025" by (simp add: render_env_def)
  have kf: "load_api_key ?f = Inr ''secret''" by (rule example_key)
  have cf: "map_data ?f = Some (Some mid_ocean)" by (simp add: click_env_def)
  have gf: "geocode_lookup ?f mid_ocean = Inl (RequestException ''connection refused'')"
    by (simp add: geocode_lookup_def and_then_def click_env_def offline_def)
  have nf: "country_code (state (run ?f korea_session)) = Some None"
    by (simp add: run_click_failed [OF kf cf gf])
  from holiday_fetch_guard [of ?e korea_session] holiday_fetch_guard [of ?f korea_session]
    k oc hc cc yr nf
  show ?thesis by auto
qed


text \<open>
  C5. When the request to the holiday service fails (\<open>requests.get\<close> raises, or the
  status is an HTTP error, 400 to 599), the pass shows an error message, leaves
  \<open>country_code\<close> and \<open>country_name\<close> of the session state as they were, displays no
  holiday table, and runs to its last line.
\<close>

theorem holiday_failure_keeps_country:
  assumes "Requests_get req \<in> set (effects (run e s))"
    and "url req = CALENDARIFIC_API_URL"
    and "(\<exists>ex. http_get e req = Inl ex) \<or>
         (\<exists>r. http_get e req = Inr r \<and> 400 \<le> status_code r \<and> status_code r < 600)"
  shows "(\<exists>m. St_error m \<in> set (effects (run e s))) \<and>
         country_code (state (run e s)) = country_code s \<and>
         country_name (state (run e s)) = country_name s \<and>
         (\<forall>t. St_dataframe t \<notin> set (effects (run e s))) \<and>
         outcome (run e s) = Completed"
proof -
  from assms(1,2) obtain k code name where
      req: "req = calendarific_request k code (now_year e)"
    and run: "run e s = \<lparr>state = init_session s,
           effects = draw_page (init_session s) @
             [St_subheader name code (now_year e), Requests_get req] @
             holiday_results e k None name code,
           outcome = Completed\<rparr>"
    by (rule holiday_request_sent)
  from fetch_holidays_failed [of e k code name] assms(3) req
  obtain ex where "fetch_holidays e k name code = Inl ex" by blast
  from holiday_results_failed [OF this, of None]
  obtain m rest where res: "holiday_results e k None name code = St_error m # rest"
    and rest: "rest = [] \<or> (\<exists>j. rest = [St_error (ApiServerMessage j)])" by blast
  have "St_error m \<in> set (effects (run e s))" by (simp add: run res)
  moreover have "\<forall>t. St_dataframe t \<notin> set (effects (run e s))"
    using rest by (auto simp: run res draw_page_def)
  ultimately show ?thesis by (auto simp: run init_session_country)
qed

theorem holiday_failure_keeps_country_witness:
  "Requests_get (calendarific_request ''secret'' ''KR'' 2025) \<in>
     set (effects (run (render_env (answer CALENDARIFIC_API_URL 401 unauthorized_json))
       korea_session)) \<and>
   (\<exists>m. St_error m \<in> set (effects (run (render_env (answer CALENDARIFIC_API_URL 401
       unauthorized_json)) korea_session))) \<and>
   country_code (state (run (render_env (answer CALENDARIFIC_API_URL 401 unauthorized_json))
       korea_session)) = Some (Some ''KR'') \<and>
   country_name (state (run (render_env (answer CALENDARIFIC_API_URL 401 unauthorized_json))
       korea_session)) = Some (JStr ''South Korea'') \<and>
   (\<forall>t. St_dataframe t \<notin> set (effects (run (render_env (answer CALENDARIFIC_API_URL 401
       unauthorized_json)) korea_session))) \<and>
   outcome (run (render_env (answer CALENDARIFIC_API_URL 401 unauthorized_json))
       korea_session) = Completed"
proof -
  let ?e = "render_env (answer CALENDARIFIC_API_URL 401 unauthorized_json)"
  let ?req = "calendarific_request ''secret'' ''KR'' 2025"
  have k: "load_api_key ?e = Inr ''secret''" by (rule example_key)
  have nc: "\<forall>c. map_data ?e \<noteq> Some (Some c)" by (simp add: render_env_def)
  have m: "Requests_get ?req \<in> set (effects (run ?e korea_session))"
    unfolding run_no_click [OF k nc]
    by (simp add: show_holidays_def init_session_def korea_session_def render_env_def)
  have u: "url ?req = CALENDARIFIC_API_URL" by (simp add: calendarific_request_def)
  have f: "(\<exists>ex. http_get ?e ?req = Inl ex) \<or>
         (\<exists>r. http_get ?e ?req = Inr r \<and> 400 \<le> status_code r \<and> status_code r < 600)"
    by (simp add: render_env_def answer_def calendarific_request_def)
  have c: "country_code korea_session = Some (Some ''KR'')"
    "country_name korea_session = Some (JStr ''South Korea'')"
    by (simp_all add: korea_session_def)
  from holiday_failure_keeps_country [OF m u f] m c show ?thesis by simp
qed

text \<open>
  C6. When the holiday service answers the request of a pass successfully with a
  well-formed body whose list of holidays is empty, the pass shows, after the header,
  the information that no holidays were found for the country, and nothing else: no
  error message and no table.
\<close>

theorem empty_holidays_is_information:
  assumes "Requests_get req \<in> set (effects (run e s))"
    and "url req = CALENDARIFIC_API_URL"
    and "http_get e req = Inr r"
    and "\<not> (400 \<le> status_code r \<and> status_code r < 600)"
    and "json_body r = Inr (JObj body)"
    and "map_of body ''response'' = Some (JObj rb)"
    and "map_of rb ''holidays'' = Some (JArr [])"
  shows "\<exists>name code. country_name s = Some name \<and> country_code s = Some (Some code) \<and>
           effects (run e s) = draw_page (init_session s) @
             [St_subheader name code (now_year e), Requests_get req,
              St_info (NoHolidaysFound name)] \<and>
           (\<forall>m. St_error m \<notin> set (effects (run e s))) \<and>
           (\<forall>t. St_dataframe t \<notin> set (effects (run e s))) \<and>
           outcome (run e s) = Completed"
proof -
  from assms(1,2) obtain k code name where
      s: "country_code s = Some (Some code)" "country_name s = Some name"
    and req: "req = calendarific_request k code (now_year e)"
    and run: "run e s = \<lparr>state = init_session s,
           effects = draw_page (init_session s) @
             [St_subheader name code (now_year e), Requests_get req] @
             holiday_results e k None name code,
           outcome = Completed\<rparr>"
    by (rule holiday_request_sent)
  from assms(3) req have "http_get e (calendarific_request k code (now_year e)) = Inr r"
    by simp
  from holiday_results_empty [OF this assms(4-7)]
  have "holiday_results e k None name code = [St_info (NoHolidaysFound name)]" .
  with s show ?thesis by (auto simp: run draw_page_def)
qed

theorem empty_holidays_is_information_witness:
  "Requests_get (calendarific_request ''secret'' ''KR'' 2025) \<in>
     set (effects (run (render_env (answer CALENDARIFIC_API_URL 200 no_holidays_json))
       korea_session)) \<and>
   effects (run (render_env (answer CALENDARIFIC_API_URL 200 no_holidays_json)) korea_session) =
     draw_page (init_session korea_session) @
       [St_subheader (JStr ''South Korea'') ''KR'' 2025,
        Requests_get (calendarific_request ''secret'' ''KR'' 2025),
        St_info (NoHolidaysFound (JStr ''South Korea''))] \<and>
   outcome (run (render_env (answer CALENDARIFIC_API_URL 200 no_holidays_json))
     korea_session) = Completed"
proof -
  let ?e = "render_env (answer CALENDARIFIC_API_URL 200 no_holidays_json)"
  let ?req = "calendarific_request ''secret'' ''KR'' 2025"
  let ?r = "\<lparr>status_code = 200, json_body = Inr no_holidays_json\<rparr>"
  have k: "load_api_key ?e = Inr ''secret''" by (rule example_key)
  have nc: "\<forall>c. map_data ?e \<noteq> Some (Some c)" by (simp add: render_env_def)
  have m: "Requests_get ?req \<in> set (effects (run ?e korea_session))"
    unfolding run_no_click [OF k nc]
    by (simp add: show_holidays_def init_session_def korea_session_def render_env_def)
  have u: "url ?req = CALENDARIFIC_API_URL" by (simp add: calendarific_request_def)
  have g: "http_get ?e ?req = Inr ?r"
    by (simp add: render_env_def answer_def calendarific_request_def)
  have st: "\<not> (400 \<le> status_code ?r \<and> status_code ?r < 600)" by simp
  have b: "json_body ?r = Inr (JObj [(''meta'', JObj [(''code'', JNum 200)]),
      (''response'', JObj [(''holidays'', JArr [])])])"
    by (simp add: no_holidays_json_def)
  have rb: "map_of [(''meta'', JObj [(''code'', JNum 200)]),
      (''response'', JObj [(''holidays'', JArr [])])] ''response'' =
      Some (JObj [(''holidays'', JArr [])])" by simp
  have h: "map_of [(''holidays'', JArr [])] ''holidays'' = Some (JArr [])" by simp
  have c: "country_code korea_session = Some (Some ''KR'')"
    "country_name korea_session = Some (JStr ''South Korea'')" "now_year ?e = 2025"
    by (simp_all add: korea_session_def render_env_def)
  from empty_holidays_is_information [OF m u g st b rb h] m c show ?thesis by auto
qed


lemma example_geocodes:
  "geocode_called seoul_click" "geocoded_country_code seoul_click = Some ''kr''"
  "geocode_called code_only_click" "geocoded_country_code code_only_click = Some ''kr''"
  "geocode_called ocean_click" "geocoded_country_code ocean_click = None"
  "\<not> geocode_called (render_env service)"
  by (simp_all add: geocode_called_def geocoded_country_code_def country_code_field_def
        load_api_key_def nominatim_request_def example_defs)

text \<open>
  C1. After every sequence of passes of a session, \<open>country_code\<close> holds a string (it is
  set and not \<open>None\<close>) if and only if there was a geocode call and the most recent one
  succeeded with a \<open>country_code\<close> field in the address of the answer. The call succeeded
  with the field when the request returned, the status was no HTTP error, the body was a
  JSON object whose \<open>address\<close> is an object, and \<open>country_code\<close> in it is a string, so
  that nothing raised while the answer was read (\<open>geocoded_country_code\<close> is that
  string). Pass by pass: a pass that calls the geocoder leaves \<open>country_code\<close> set exactly
  when that call succeeded (the success branch stores the code, every other branch
  stores \<open>None\<close>), and a pass that does not call it leaves \<open>country_code\<close> as it was.
\<close>

theorem country_code_set_iff_last_geocode_succeeded:
  "country_is_set (run_session es empty_session) =
     (case last_geocode es of None \<Rightarrow> False | Some e \<Rightarrow> geocode_succeeded e) \<and>
   (geocode_called e \<longrightarrow> country_is_set (state (run e s)) = geocode_succeeded e) \<and>
   (\<not> geocode_called e \<longrightarrow> country_code (state (run e s)) = country_code s)"
proof -
  have session: "country_is_set (run_session es empty_session) =
     (case last_geocode es of None \<Rightarrow> False | Some e \<Rightarrow> geocode_succeeded e)"
    by (auto simp: country_is_set_def session_country_code geocode_succeeded_def
          empty_session_def split: option.splits)
  have called: "country_is_set (state (run e s)) = geocode_succeeded e" if "geocode_called e"
    using that
    by (auto simp: country_is_set_def run_geocoded geocode_succeeded_def split: option.splits)
  from session called run_not_geocoded [of e s] show ?thesis by blast
qed

theorem country_code_set_iff_last_geocode_succeeded_witness:
  "last_geocode [seoul_click, render_env offline, ocean_click] = Some ocean_click \<and>
   \<not> geocode_succeeded ocean_click \<and>
   \<not> country_is_set (run_session [seoul_click, render_env offline, ocean_click] empty_session) \<and>
   last_geocode [ocean_click, seoul_click, render_env offline] = Some seoul_click \<and>
   geocode_succeeded seoul_click \<and>
   country_is_set (run_session [ocean_click, seoul_click, render_env offline] empty_session) \<and>
   geocode_called seoul_click \<and>
   country_is_set (state (run seoul_click korea_session)) \<and>
   \<not> geocode_called (render_env offline) \<and>
   country_code (state (run (render_env offline) korea_session)) = country_code korea_session"
proof -
  have l1: "last_geocode [seoul_click, render_env offline, ocean_click] = Some ocean_click"
    by (simp add: last_geocode_def example_geocodes)
  have l2: "last_geocode [ocean_click, seoul_click, render_env offline] = Some seoul_click"
    by (simp add: last_geocode_def example_geocodes)
  have g: "\<not> geocode_succeeded ocean_click" "geocode_succeeded seoul_click"
    by (simp_all add: geocode_succeeded_def example_geocodes)
  from country_code_set_iff_last_geocode_succeeded
         [of "[seoul_click, render_env offline, ocean_click]" seoul_click korea_session]
       country_code_set_iff_last_geocode_succeeded
         [of "[ocean_click, seoul_click, render_env offline]" "render_env offline" korea_session]
       l1 l2 g example_geocodes(1) example_geocodes(7) [of offline]
  show ?thesis by simp
qed

text \<open>
  C9. Whenever \<open>country_code\<close> is set in the session state, after any sequence of passes
  of a session, it is an upper-case string: none of its characters is a lower-case
  letter, and upper-casing it changes nothing. A pass whose geocode call succeeds stores
  the \<open>country_code\<close> of the answer upper-cased.
\<close>

theorem stored_country_code_is_upper_case:
  "(country_code (run_session es empty_session) = Some (Some code) \<longrightarrow>
      is_upper_case code \<and> upper code = code) \<and>
   (geocode_called e \<and> geocoded_country_code e = Some v \<longrightarrow>
      country_code (state (run e s)) = Some (Some (upper v)))"
proof -
  have "is_upper_case code \<and> upper code = code"
    if "country_code (run_session es empty_session) = Some (Some code)"
  proof -
    from that obtain v where "code = upper v"
      by (auto simp: session_country_code empty_session_def split: option.splits)
    then show ?thesis by (simp add: is_upper_case_upper upper_idem)
  qed
  then show ?thesis by (auto simp: run_geocoded)
qed

theorem stored_country_code_is_upper_case_witness:
  "country_code (run_session [seoul_click, render_env offline] empty_session) = Some (Some ''KR'') \<and>
   is_upper_case ''KR'' \<and> upper ''KR'' = ''KR'' \<and>
   geocode_called seoul_click \<and> geocoded_country_code seoul_click = Some ''kr'' \<and>
   country_code (state (run seoul_click korea_session)) = Some (Some (upper ''kr''))"
proof -
  have l: "last_geocode [seoul_click, render_env offline] = Some seoul_click"
    by (simp add: last_geocode_def example_geocodes)
  have c: "country_code (run_session [seoul_click, render_env offline] empty_session) =
      Some (Some ''KR'')"
    by (simp only: session_country_code l example_geocodes option.case upper_kr)
  from stored_country_code_is_upper_case
         [of "[seoul_click, render_env offline]" "''KR''" seoul_click "''kr''" korea_session]
       c example_geocodes(1,2)
  show ?thesis by simp
qed

text \<open>
  C10. When the answer of the geocoder has \<open>address.country_code\<close> (a string) and no
  \<open>address.country\<close>, the pass stores the upper-cased country code both as
  \<open>country_code\<close> and as \<open>country_name\<close>: the name defaults to the code. When the answer
  has an \<open>address.country\<close>, the pass stores that value as it is, so the stored name is
  \<open>None\<close> exactly when the answer gives \<open>null\<close> there. In every state of a session,
  whenever \<open>country_code\<close> is set the key \<open>country_name\<close> is in the state as well.

  A display name is therefore not always set when a country code is: for the answer
  with \<open>"country": null\<close> beside \<open>"country_code": "kr"\<close>, \<open>dict.get\<close> of line 93 finds
  the key and returns \<open>None\<close>, and the pass stores the code \<open>KR\<close> with the name \<open>None\<close>.
\<close>

theorem country_name_defaults_to_code:
  assumes "load_api_key e = Inr k" and "map_data e = Some (Some c)"
    and "http_get e (nominatim_request c) = Inr r"
    and "\<not> (400 \<le> status_code r \<and> status_code r < 600)"
    and "json_body r = Inr (JObj body)"
    and "map_of body ''address'' = Some (JObj addr)"
    and "map_of addr ''country_code'' = Some (JStr v)"
  shows "country_code (state (run e s)) = Some (Some (upper v)) \<and>
         country_name (state (run e s)) =
           Some (case map_of addr ''country'' of None \<Rightarrow> JStr (upper v) | Some n \<Rightarrow> n) \<and>
         (map_of addr ''country'' = None \<longrightarrow>
            country_name (state (run e s)) = Some (JStr (upper v))) \<and>
         name_is_set (state (run e s)) = (map_of addr ''country'' \<noteq> Some JNull) \<and>
         (country_is_set (run_session es empty_session) \<longrightarrow>
            country_name (run_session es empty_session) \<noteq> None)"
proof -
  have "geocode_lookup e c = Inr (Resolved (upper v)
      (case map_of addr ''country'' of None \<Rightarrow> JStr (upper v) | Some n \<Rightarrow> n))"
    unfolding geocode_resolved_iff using assms(3-7) by auto
  from run_click_resolved [OF assms(1,2) this, of s]
  have st: "country_code (state (run e s)) = Some (Some (upper v))"
    "country_name (state (run e s)) =
       Some (case map_of addr ''country'' of None \<Rightarrow> JStr (upper v) | Some n \<Rightarrow> n)"
    by simp_all
  have set: "name_is_set (state (run e s)) = (map_of addr ''country'' \<noteq> Some JNull)"
    by (cases "map_of addr ''country''") (simp_all add: name_is_set_def st)
  have "country_is_set empty_session \<longrightarrow> country_name empty_session \<noteq> None"
    by (simp add: country_is_set_def empty_session_def)
  from session_name_present [OF this, of es] st set show ?thesis by simp
qed

theorem country_name_defaults_to_code_witness:
  "load_api_key code_only_click = Inr ''secret'' \<and>
   map_data code_only_click = Some (Some seoul) \<and>
   http_get code_only_click (nominatim_request seoul) =
     Inr \<lparr>status_code = 200, json_body = Inr code_only_json\<rparr> \<and>
   country_code (state (run code_only_click korea_session)) = Some (Some ''KR'') \<and>
   country_name (state (run code_only_click korea_session)) = Some (JStr ''KR'') \<and>
   name_is_set (state (run code_only_click korea_session)) \<and>
   country_is_set (run_session [code_only_click] empty_session) \<and>
   country_name (run_session [code_only_click] empty_session) \<noteq> None"
proof -
  let ?r = "\<lparr>status_code = 200, json_body = Inr code_only_json\<rparr>"
  have k: "load_api_key code_only_click = Inr ''secret''"
    unfolding code_only_click_def by (rule example_key)
  have c: "map_data code_only_click = Some (Some seoul)"
    by (simp add: code_only_click_def click_env_def)
  have g: "http_get code_only_click (nominatim_request seoul) = Inr ?r"
    by (simp add: code_only_click_def click_env_def answer_def nominatim_request_def)
  have st: "\<not> (400 \<le> status_code ?r \<and> status_code ?r < 600)" by simp
  have b: "json_body ?r = Inr (JObj [(''address'', JObj [(''country_code'', JStr ''kr'')])])"
    by (simp add: code_only_json_def)
  have a: "map_of [(''address'', JObj [(''country_code'', JStr ''kr'')])] ''address'' =
      Some (JObj [(''country_code'', JStr ''kr'')])" by simp
  have cc: "map_of [(''country_code'', JStr ''kr'')] ''country_code'' = Some (JStr ''kr'')"
    by simp
  have l: "last_geocode [code_only_click] = Some code_only_click"
    by (simp add: last_geocode_def example_geocodes)
  have s: "country_is_set (run_session [code_only_click] empty_session)"
    unfolding country_is_set_def
    by (simp only: session_country_code l example_geocodes option.case)
  from country_name_defaults_to_code
         [OF k c g st b a cc, of korea_session "[code_only_click]"] k c g s
  show ?thesis by (simp add: upper_kr)
qed

theorem country_code_set_without_name_counterexample:
  "country_code (state (run null_country_click empty_session)) = Some (Some ''KR'') \<and>
   country_name (state (run null_country_click empty_session)) = Some JNull \<and>
   country_is_set (state (run null_country_click empty_session)) \<and>
   \<not> name_is_set (state (run null_country_click empty_session))"
proof -
  have k: "load_api_key null_country_click = Inr ''secret''"
    unfolding null_country_click_def by (rule example_key)
  have c: "map_data null_country_click = Some (Some seoul)"
    by (simp add: null_country_click_def click_env_def)
  have g: "geocode_lookup null_country_click seoul = Inr (Resolved ''KR'' JNull)"
    by (simp add: geocode_lookup_def and_then_def raise_for_status_def null_country_click_def
          click_env_def answer_def nominatim_request_def null_country_json_def upper_kr)
  from run_click_resolved [OF k c g, of empty_session] show ?thesis
    by (simp add: country_is_set_def name_is_set_def)
qed

end
